theory Spec2Isabelle
  imports Main
begin

section \<open>The user record and the text formatting used by model.go\<close>

text \<open>
  \<^verbatim>\<open>type user struct { ID int; Name string; Age int }\<close>.  Go's \<open>int\<close> is read as a
  mathematical integer: model.go and the handlers do no arithmetic on these fields.
\<close>

record user =
  ID :: int
  Name :: string
  Age :: int

text \<open>The zero value of \<^verbatim>\<open>var u user\<close>.\<close>

definition zero_user :: user where
  "zero_user = \<lparr>ID = 0, Name = [], Age = 0\<rparr>"

text \<open>The single quote character, which the statement templates of model.go contain.\<close>

definition quote :: char where
  "quote = CHR 0x27"

text \<open>
  \<^verbatim>\<open>%d\<close> of \<^verbatim>\<open>fmt.Sprintf\<close>: the decimal digits, most significant first, with a
  leading minus sign for a negative number.
\<close>

definition digit_char :: "nat \<Rightarrow> char" where
  "digit_char d = char_of (48 + d)"

function digits_of :: "int \<Rightarrow> string" where
  "digits_of n =
     (if n < 10 then [digit_char (nat n)]
      else digits_of (n div 10) @ [digit_char (nat (n mod 10))])"
  by pat_completeness auto
termination
  by (relation "measure nat") auto

declare digits_of.simps [simp del]

definition fmt_d :: "int \<Rightarrow> string" where
  "fmt_d i = (if i < 0 then CHR ''-'' # digits_of (- i) else digits_of i)"

section \<open>strconv.Atoi\<close>

text \<open>
  \<^verbatim>\<open>strconv.Atoi\<close> on a 64-bit platform gives what \<^verbatim>\<open>ParseInt(s, 10, 64)\<close> gives:
  an optional sign, then \<^verbatim>\<open>ParseUint\<close> on the rest.  \<^verbatim>\<open>ParseUint\<close> reads the digits
  from the left; a character that is no digit is a syntax error with value 0, and it
  stops with a range error as soon as the number read so far leaves the unsigned 64-bit
  range, before it looks at the characters that follow.  A range error, or a value
  outside the signed range, gives the nearest bound of the signed range.
\<close>

datatype num_error = ErrSyntax | ErrRange

definition max_int :: int where
  "max_int = 9223372036854775807"

definition min_int :: int where
  "min_int = - 9223372036854775808"

definition max_uint :: int where
  "max_uint = 18446744073709551615"

definition is_digit :: "char \<Rightarrow> bool" where
  "is_digit c \<longleftrightarrow> (48::nat) \<le> of_char c \<and> of_char c \<le> (57::nat)"

definition digit_val :: "char \<Rightarrow> nat" where
  "digit_val c = of_char c - 48"

fun ParseUint_loop :: "string \<Rightarrow> int \<Rightarrow> int \<times> num_error option" where
  "ParseUint_loop [] n = (n, None)"
| "ParseUint_loop (c # cs) n =
     (if \<not> is_digit c then (0, Some ErrSyntax)
      else if n \<ge> max_uint div 10 + 1 then (max_uint, Some ErrRange)
      else if n * 10 + int (digit_val c) > max_uint then (max_uint, Some ErrRange)
      else ParseUint_loop cs (n * 10 + int (digit_val c)))"

definition ParseUint :: "string \<Rightarrow> int \<times> num_error option" where
  "ParseUint s = (if s = [] then (0, Some ErrSyntax) else ParseUint_loop s 0)"

definition atoi_signed :: "bool \<Rightarrow> string \<Rightarrow> int \<times> num_error option" where
  "atoi_signed neg ds =
     (case ParseUint ds of
        (un, Some ErrSyntax) \<Rightarrow> (0, Some ErrSyntax)
      | (un, e) \<Rightarrow>
          if \<not> neg \<and> un \<ge> max_int + 1 then (max_int, Some ErrRange)
          else if neg \<and> un > max_int + 1 then (min_int, Some ErrRange)
          else ((if neg then - un else un), None))"

definition Atoi :: "string \<Rightarrow> int \<times> num_error option" where
  "Atoi s =
     (case s of
        [] \<Rightarrow> (0, Some ErrSyntax)
      | c # cs \<Rightarrow>
          if c = CHR ''+'' then atoi_signed False cs
          else if c = CHR ''-'' then atoi_signed True cs
          else atoi_signed False s)"

section \<open>The database handle as model.go uses it\<close>

text \<open>
  model.go talks to the database through three methods of \<^verbatim>\<open>*sql.DB\<close>: \<^verbatim>\<open>Exec\<close>,
  \<^verbatim>\<open>Query\<close> and \<^verbatim>\<open>QueryRow\<close>.  Each receives the statement text and the bind
  arguments.  The handle is a parameter of the model: a driver over a database state
  \<open>'db\<close>.  \<open>Exec\<close> reports a failure message or the number of affected rows; \<open>Query\<close>
  reports a failure message or the rows that \<^verbatim>\<open>rows.Next()\<close> delivers, in order.
  \<open>Close\<close> is \<^verbatim>\<open>rows.Close()\<close> on the rows of the query that led to the state: the
  message of its failure, if it fails.
\<close>

datatype sqlval = IntVal int | StrVal string | NullVal

type_synonym row = "sqlval list"

record 'db driver =
  Exec :: "string \<Rightarrow> sqlval list \<Rightarrow> 'db \<Rightarrow> (string + nat) \<times> 'db"
  Query :: "string \<Rightarrow> sqlval list \<Rightarrow> 'db \<Rightarrow> (string + row list) \<times> 'db"
  Close :: "'db \<Rightarrow> string option"

text \<open>
  The errors a data-access function can return: \<^verbatim>\<open>sql.ErrNoRows\<close>, which only
  \<^verbatim>\<open>Row.Scan\<close> produces, a failure reported by the driver, and a failure of \<^verbatim>\<open>Scan\<close>
  to convert a column.
\<close>

datatype error = ErrNoRows | DriverError string | ScanError string

fun Error :: "error \<Rightarrow> string" where
  "Error ErrNoRows = ''sql: no rows in result set''"
| "Error (DriverError m) = m"
| "Error (ScanError m) = m"

text \<open>
  \<^verbatim>\<open>db.QueryRow(...)\<close> up to the row that \<^verbatim>\<open>Row.Scan\<close> scans: the error of the query
  if it failed, \<^verbatim>\<open>ErrNoRows\<close> if it delivered no row, the first row otherwise.
\<close>

definition QueryRow :: "'db driver \<Rightarrow> string \<Rightarrow> sqlval list \<Rightarrow> 'db \<Rightarrow> (error + row) \<times> 'db" where
  "QueryRow drv q args db =
     (case Query drv q args db of
        (Inl m, db') \<Rightarrow> (Inl (DriverError m), db')
      | (Inr [], db') \<Rightarrow> (Inl ErrNoRows, db')
      | (Inr (r # rs), db') \<Rightarrow> (Inr r, db'))"

text \<open>
  \<^verbatim>\<open>Scan\<close> converts one column into one destination: an integer or a decimal string
  into an \<^verbatim>\<open>*int\<close>, a string or an integer into a \<^verbatim>\<open>*string\<close>; NULL fits neither.
  The messages of the conversion errors are shortened; nothing below depends on them.
\<close>

definition scan_int :: "sqlval \<Rightarrow> string + int" where
  "scan_int c =
     (case c of
        IntVal i \<Rightarrow> Inr i
      | StrVal s \<Rightarrow> (case Atoi s of (i, None) \<Rightarrow> Inr i | (i, Some e) \<Rightarrow> Inl ''converting string to int'')
      | NullVal \<Rightarrow> Inl ''converting NULL to int is unsupported'')"

definition scan_string :: "sqlval \<Rightarrow> string + string" where
  "scan_string c =
     (case c of
        IntVal i \<Rightarrow> Inr (fmt_d i)
      | StrVal s \<Rightarrow> Inr s
      | NullVal \<Rightarrow> Inl ''converting NULL to string is unsupported'')"

text \<open>The destinations model.go passes to \<^verbatim>\<open>Scan\<close>: pointers to fields of a user.\<close>

datatype dest = To_ID | To_Name | To_Age

fun assign :: "dest \<Rightarrow> sqlval \<Rightarrow> user \<Rightarrow> string + user" where
  "assign To_ID c u = (case scan_int c of Inl m \<Rightarrow> Inl m | Inr i \<Rightarrow> Inr (u\<lparr>ID := i\<rparr>))"
| "assign To_Name c u = (case scan_string c of Inl m \<Rightarrow> Inl m | Inr s \<Rightarrow> Inr (u\<lparr>Name := s\<rparr>))"
| "assign To_Age c u = (case scan_int c of Inl m \<Rightarrow> Inl m | Inr i \<Rightarrow> Inr (u\<lparr>Age := i\<rparr>))"

text \<open>
  The destinations are assigned from left to right; the first conversion that fails
  stops the scan and leaves the earlier assignments in place.
\<close>

fun scan_cols :: "dest list \<Rightarrow> row \<Rightarrow> user \<Rightarrow> error option \<times> user" where
  "scan_cols (d # ds) (c # cs) u =
     (case assign d c u of
        Inl m \<Rightarrow> (Some (ScanError m), u)
      | Inr u' \<Rightarrow> scan_cols ds cs u')"
| "scan_cols ds cs u = (None, u)"

definition Scan :: "dest list \<Rightarrow> row \<Rightarrow> user \<Rightarrow> error option \<times> user" where
  "Scan ds r u =
     (if length r \<noteq> length ds
      then (Some (ScanError ''sql: wrong number of destination arguments in Scan''), u)
      else scan_cols ds r u)"

text \<open>
  \<^verbatim>\<open>Row.Scan\<close> on the result of \<^verbatim>\<open>QueryRow\<close>: it returns the error of the query or
  of the scan; after a scan that succeeded it closes the rows and returns the error of
  that, with the destinations already assigned.
\<close>

definition Row_Scan ::
  "'db driver \<Rightarrow> dest list \<Rightarrow> (error + row) \<times> 'db \<Rightarrow> user \<Rightarrow> error option \<times> user \<times> 'db" where
  "Row_Scan drv ds res u =
     (case res of
        (Inl e, db') \<Rightarrow> (Some e, u, db')
      | (Inr r, db') \<Rightarrow>
          (case Scan ds r u of
             (Some e, u') \<Rightarrow> (Some e, u', db')
           | (None, u') \<Rightarrow>
               (case Close drv db' of
                  Some m \<Rightarrow> (Some (DriverError m), u', db')
                | None \<Rightarrow> (None, u', db'))))"

section \<open>model.go: the five data-access functions\<close>

text \<open>
  model.go exists in two implemented variants: one builds the statement text with
  \<^verbatim>\<open>fmt.Sprintf\<close> and passes no bind argument, the other passes a fixed text with
  placeholders and the values as bind arguments.  (A third text of model.go is the
  scaffold the tutorial starts from, where each function only returns the error
  \<^verbatim>\<open>Not implemented\<close>; the two variants replace it.)
\<close>

datatype variant = Sprintf | Bound

text \<open>The statement text and the bind arguments each function hands to the driver.\<close>

definition getUser_stmt :: "variant \<Rightarrow> user \<Rightarrow> string \<times> sqlval list" where
  "getUser_stmt v u =
     (case v of
        Sprintf \<Rightarrow> (''SELECT name, age FROM users WHERE id='' @ fmt_d (ID u), [])
      | Bound \<Rightarrow> (''SELECT name, age FROM users WHERE id=$1'', [IntVal (ID u)]))"

definition updateUser_stmt :: "variant \<Rightarrow> user \<Rightarrow> string \<times> sqlval list" where
  "updateUser_stmt v u =
     (case v of
        Sprintf \<Rightarrow>
          (''UPDATE users SET name='' @ [quote] @ Name u @ [quote] @ '', age='' @ fmt_d (Age u)
             @ '' WHERE id='' @ fmt_d (ID u), [])
      | Bound \<Rightarrow>
          (''UPDATE users SET name=$1, age=$2 WHERE id=$3'',
           [StrVal (Name u), IntVal (Age u), IntVal (ID u)]))"

definition deleteUser_stmt :: "variant \<Rightarrow> user \<Rightarrow> string \<times> sqlval list" where
  "deleteUser_stmt v u =
     (case v of
        Sprintf \<Rightarrow> (''DELETE FROM users WHERE id='' @ fmt_d (ID u), [])
      | Bound \<Rightarrow> (''DELETE FROM users WHERE id=$1'', [IntVal (ID u)]))"

definition createUser_stmt :: "variant \<Rightarrow> user \<Rightarrow> string \<times> sqlval list" where
  "createUser_stmt v u =
     (case v of
        Sprintf \<Rightarrow>
          (''INSERT INTO users(name, age) VALUES('' @ [quote] @ Name u @ [quote] @ '', ''
             @ fmt_d (Age u) @ '')'', [])
      | Bound \<Rightarrow>
          (''INSERT INTO users(name, age) VALUES($1, $2) RETURNING id'',
           [StrVal (Name u), IntVal (Age u)]))"

definition getUsers_stmt :: "variant \<Rightarrow> int \<Rightarrow> int \<Rightarrow> string \<times> sqlval list" where
  "getUsers_stmt v start count =
     (case v of
        Sprintf \<Rightarrow>
          (''SELECT id, name, age FROM users LIMIT '' @ fmt_d count @ '' OFFSET '' @ fmt_d start, [])
      | Bound \<Rightarrow>
          (''SELECT id, name, age FROM users LIMIT $1 OFFSET $2'', [IntVal count, IntVal start]))"

text \<open>
  A method on \<^verbatim>\<open>*user\<close> returns its error together with the user as the method left
  it and the database state.
\<close>

definition getUser :: "variant \<Rightarrow> 'db driver \<Rightarrow> user \<Rightarrow> 'db \<Rightarrow> error option \<times> user \<times> 'db" where
  "getUser v drv u db =
     Row_Scan drv [To_Name, To_Age]
       (QueryRow drv (fst (getUser_stmt v u)) (snd (getUser_stmt v u)) db) u"

definition updateUser :: "variant \<Rightarrow> 'db driver \<Rightarrow> user \<Rightarrow> 'db \<Rightarrow> error option \<times> user \<times> 'db" where
  "updateUser v drv u db =
     (case Exec drv (fst (updateUser_stmt v u)) (snd (updateUser_stmt v u)) db of
        (Inl m, db') \<Rightarrow> (Some (DriverError m), u, db')
      | (Inr n, db') \<Rightarrow> (None, u, db'))"

definition deleteUser :: "variant \<Rightarrow> 'db driver \<Rightarrow> user \<Rightarrow> 'db \<Rightarrow> error option \<times> user \<times> 'db" where
  "deleteUser v drv u db =
     (case Exec drv (fst (deleteUser_stmt v u)) (snd (deleteUser_stmt v u)) db of
        (Inl m, db') \<Rightarrow> (Some (DriverError m), u, db')
      | (Inr n, db') \<Rightarrow> (None, u, db'))"

text \<open>
  \<^verbatim>\<open>createUser\<close>: the \<^verbatim>\<open>Sprintf\<close> variant executes the insert, drops its result,
  and then asks for \<^verbatim>\<open>LAST_INSERT_ID()\<close> in a second call on the handle; the other
  variant runs one insert that returns the id.
\<close>

definition createUser :: "variant \<Rightarrow> 'db driver \<Rightarrow> user \<Rightarrow> 'db \<Rightarrow> error option \<times> user \<times> 'db" where
  "createUser v drv u db =
     (case v of
        Sprintf \<Rightarrow>
          (case Exec drv (fst (createUser_stmt Sprintf u)) (snd (createUser_stmt Sprintf u)) db of
             (Inl m, db') \<Rightarrow> (Some (DriverError m), u, db')
           | (Inr n, db') \<Rightarrow> Row_Scan drv [To_ID] (QueryRow drv ''SELECT LAST_INSERT_ID()'' [] db') u)
      | Bound \<Rightarrow>
          Row_Scan drv [To_ID]
            (QueryRow drv (fst (createUser_stmt Bound u)) (snd (createUser_stmt Bound u)) db) u)"

text \<open>
  \<^verbatim>\<open>getUsers\<close>: the loop over \<^verbatim>\<open>rows.Next()\<close> with the slice \<^verbatim>\<open>users\<close> as
  accumulator.  A Go slice is \<open>None\<close> when nil.
\<close>

fun scan_rows :: "row list \<Rightarrow> user list \<Rightarrow> user list option \<times> error option" where
  "scan_rows [] users = (Some users, None)"
| "scan_rows (r # rs) users =
     (case Scan [To_ID, To_Name, To_Age] r zero_user of
        (Some e, u) \<Rightarrow> (None, Some e)
      | (None, u) \<Rightarrow> scan_rows rs (users @ [u]))"

definition getUsers ::
  "variant \<Rightarrow> 'db driver \<Rightarrow> int \<Rightarrow> int \<Rightarrow> 'db \<Rightarrow> user list option \<times> error option \<times> 'db" where
  "getUsers v drv start count db =
     (case Query drv (fst (getUsers_stmt v start count)) (snd (getUsers_stmt v start count)) db of
        (Inl m, db') \<Rightarrow> (None, Some (DriverError m), db')
      | (Inr rows, db') \<Rightarrow> (fst (scan_rows rows []), snd (scan_rows rows []), db'))"

section \<open>app.go: responses\<close>

text \<open>
  A response is the status code, the content type and the JSON value that
  \<^verbatim>\<open>json.Marshal\<close> produces from the payload.  The handlers marshal three kinds of
  payload: a user, a slice of users and a \<^verbatim>\<open>map[string]string\<close> with one key.  A nil
  slice marshals to \<^verbatim>\<open>null\<close>, an empty one to \<^verbatim>\<open>[]\<close>.
\<close>

datatype json = JNull | JNum int | JStr string | JArr "json list" | JObj "(string \<times> json) list"

datatype payload = User user | Users "user list option" | StringMap "(string \<times> string) list"

definition marshal_user :: "user \<Rightarrow> json" where
  "marshal_user u = JObj [(''id'', JNum (ID u)), (''name'', JStr (Name u)), (''age'', JNum (Age u))]"

fun Marshal :: "payload \<Rightarrow> json" where
  "Marshal (User u) = marshal_user u"
| "Marshal (Users None) = JNull"
| "Marshal (Users (Some us)) = JArr (map marshal_user us)"
| "Marshal (StringMap kvs) = JObj (map (\<lambda>kv. (fst kv, JStr (snd kv))) kvs)"

record response =
  Code :: nat
  ContentType :: string
  Content :: json

definition StatusOK :: nat where "StatusOK = 200"
definition StatusCreated :: nat where "StatusCreated = 201"
definition StatusBadRequest :: nat where "StatusBadRequest = 400"
definition StatusNotFound :: nat where "StatusNotFound = 404"
definition StatusInternalServerError :: nat where "StatusInternalServerError = 500"

definition respondWithJSON :: "nat \<Rightarrow> payload \<Rightarrow> response" where
  "respondWithJSON code p = \<lparr>Code = code, ContentType = ''application/json'', Content = Marshal p\<rparr>"

definition respondWithError :: "nat \<Rightarrow> string \<Rightarrow> response" where
  "respondWithError code message = respondWithJSON code (StringMap [(''error'', message)])"

section \<open>app.go: requests and handlers\<close>

text \<open>
  What a handler reads from a request: the path variables of \<^verbatim>\<open>mux.Vars\<close>, the query
  parameters behind \<^verbatim>\<open>r.FormValue\<close>, and the user that \<^verbatim>\<open>Decode(&u)\<close> yields from
  the body, starting from the zero user (\<open>None\<close> when \<^verbatim>\<open>Decode\<close> returns an error).
  Variables and parameters are lists of key and value; the first entry of a key counts,
  and a key that is absent reads as the empty string.
\<close>

record request =
  Vars :: "(string \<times> string) list"
  Form :: "(string \<times> string) list"
  Body :: "user option"

definition lookup :: "(string \<times> string) list \<Rightarrow> string \<Rightarrow> string" where
  "lookup kvs k = (case map_of kvs k of None \<Rightarrow> [] | Some s \<Rightarrow> s)"

definition FormValue :: "request \<Rightarrow> string \<Rightarrow> string" where
  "FormValue r k = lookup (Form r) k"

text \<open>The error branch of \<^verbatim>\<open>App.getUser\<close>: the switch on \<^verbatim>\<open>sql.ErrNoRows\<close>.\<close>

fun getUser_failed :: "error \<Rightarrow> response" where
  "getUser_failed ErrNoRows = respondWithError StatusNotFound ''User not found''"
| "getUser_failed err = respondWithError StatusInternalServerError (Error err)"

definition App_getUser :: "variant \<Rightarrow> 'db driver \<Rightarrow> request \<Rightarrow> 'db \<Rightarrow> response \<times> 'db" where
  "App_getUser v drv r db =
     (case Atoi (lookup (Vars r) ''id'') of
        (i, Some e) \<Rightarrow> (respondWithError StatusBadRequest ''Invalid user ID'', db)
      | (i, None) \<Rightarrow>
          (case getUser v drv (zero_user\<lparr>ID := i\<rparr>) db of
             (Some err, u, db') \<Rightarrow> (getUser_failed err, db')
           | (None, u, db') \<Rightarrow> (respondWithJSON StatusOK (User u), db')))"

text \<open>
  \<^verbatim>\<open>App.getUsers\<close> ignores the errors of \<^verbatim>\<open>Atoi\<close>, then adjusts \<open>count\<close> and \<open>start\<close>.
  \<open>getUsers_args\<close> is the pair \<open>(start, count)\<close> it passes to \<^verbatim>\<open>getUsers\<close>.
\<close>

definition getUsers_args :: "request \<Rightarrow> int \<times> int" where
  "getUsers_args r =
     (let count = fst (Atoi (FormValue r ''count''));
          start = fst (Atoi (FormValue r ''start''));
          count = (if count > 10 \<or> count < 1 then 10 else count);
          start = (if start < 0 then 0 else start)
      in (start, count))"

definition App_getUsers :: "variant \<Rightarrow> 'db driver \<Rightarrow> request \<Rightarrow> 'db \<Rightarrow> response \<times> 'db" where
  "App_getUsers v drv r db =
     (case getUsers v drv (fst (getUsers_args r)) (snd (getUsers_args r)) db of
        (users, Some err, db') \<Rightarrow> (respondWithError StatusInternalServerError (Error err), db')
      | (users, None, db') \<Rightarrow> (respondWithJSON StatusOK (Users users), db'))"

definition App_createUser :: "variant \<Rightarrow> 'db driver \<Rightarrow> request \<Rightarrow> 'db \<Rightarrow> response \<times> 'db" where
  "App_createUser v drv r db =
     (case Body r of
        None \<Rightarrow> (respondWithError StatusBadRequest ''Invalid request payload'', db)
      | Some u \<Rightarrow>
          (case createUser v drv u db of
             (Some err, u', db') \<Rightarrow> (respondWithError StatusInternalServerError (Error err), db')
           | (None, u', db') \<Rightarrow> (respondWithJSON StatusCreated (User u'), db')))"

definition App_updateUser :: "variant \<Rightarrow> 'db driver \<Rightarrow> request \<Rightarrow> 'db \<Rightarrow> response \<times> 'db" where
  "App_updateUser v drv r db =
     (case Atoi (lookup (Vars r) ''id'') of
        (i, Some e) \<Rightarrow> (respondWithError StatusBadRequest ''Invalid user ID'', db)
      | (i, None) \<Rightarrow>
          (case Body r of
             None \<Rightarrow> (respondWithError StatusBadRequest ''Invalid resquest payload'', db)
           | Some u \<Rightarrow>
               (case updateUser v drv (u\<lparr>ID := i\<rparr>) db of
                  (Some err, u', db') \<Rightarrow> (respondWithError StatusInternalServerError (Error err), db')
                | (None, u', db') \<Rightarrow> (respondWithJSON StatusOK (User u'), db'))))"

definition App_deleteUser :: "variant \<Rightarrow> 'db driver \<Rightarrow> request \<Rightarrow> 'db \<Rightarrow> response \<times> 'db" where
  "App_deleteUser v drv r db =
     (case Atoi (lookup (Vars r) ''id'') of
        (i, Some e) \<Rightarrow> (respondWithError StatusBadRequest ''Invalid User ID'', db)
      | (i, None) \<Rightarrow>
          (case deleteUser v drv (zero_user\<lparr>ID := i\<rparr>) db of
             (Some err, u, db') \<Rightarrow> (respondWithError StatusInternalServerError (Error err), db')
           | (None, u, db') \<Rightarrow> (respondWithJSON StatusOK (StringMap [(''result'', ''success'')]), db')))"

section \<open>A database to run the code against\<close>

text \<open>
  The database itself is not part of the repository.  To run the data-access functions
  and the handlers, this section gives one driver: the table \<^verbatim>\<open>users\<close> in memory and a
  reader for exactly the statements model.go issues, in both forms.  A text with
  placeholders is recognised as a whole and takes its values from the bind arguments.
  A text without bind arguments is read from left to right: a fixed keyword part, then
  an integer literal or a quoted string literal, and so on to the end of the text.

  The handle is a pool of connections, numbered from 0, and the pool chooses the
  connection that serves a call.  \<open>schedule\<close> lists the connections of the coming
  calls in order; once it is used up, connection 0 serves.  The table and its counter
  are shared.  \<^verbatim>\<open>LAST_INSERT_ID()\<close> belongs to the connection: \<open>last_insert_ids\<close>
  holds the id of the latest insert of each connection, the newest entry first, and a
  connection that has not inserted answers 0.
\<close>

record store =
  users_table :: "user list"
  auto_increment :: int
  last_insert_ids :: "(nat \<times> int) list"
  schedule :: "nat list"

definition connection :: "store \<Rightarrow> nat" where
  "connection s = (case schedule s of [] \<Rightarrow> 0 | c # cs \<Rightarrow> c)"

definition served :: "store \<Rightarrow> store" where
  "served s = (case schedule s of [] \<Rightarrow> s | c # cs \<Rightarrow> s\<lparr>schedule := cs\<rparr>)"

definition last_insert_id :: "store \<Rightarrow> nat \<Rightarrow> int" where
  "last_insert_id s c = (case map_of (last_insert_ids s) c of None \<Rightarrow> 0 | Some i \<Rightarrow> i)"

datatype command =
    Select_user int
  | Update_user string int int
  | Delete_user int
  | Insert_user string int bool
  | Select_last_id
  | Select_users int int

fun strip_prefix :: "string \<Rightarrow> string \<Rightarrow> string option" where
  "strip_prefix [] s = Some s"
| "strip_prefix (p # ps) [] = None"
| "strip_prefix (p # ps) (c # cs) = (if p = c then strip_prefix ps cs else None)"

text \<open>An integer literal: an optional minus sign and the longest run of digits.\<close>

fun digits_value :: "string \<Rightarrow> int \<Rightarrow> int option" where
  "digits_value [] n = Some n"
| "digits_value (c # cs) n = (if is_digit c then digits_value cs (n * 10 + int (digit_val c)) else None)"

definition read_digits :: "string \<Rightarrow> (int \<times> string) option" where
  "read_digits s =
     (if takeWhile is_digit s = [] then None
      else case digits_value (takeWhile is_digit s) 0 of
        None \<Rightarrow> None
      | Some n \<Rightarrow> Some (n, dropWhile is_digit s))"

definition read_int :: "string \<Rightarrow> (int \<times> string) option" where
  "read_int s =
     (case s of
        [] \<Rightarrow> None
      | c # cs \<Rightarrow>
          if c = CHR ''-''
          then (case read_digits cs of None \<Rightarrow> None | Some (n, rest) \<Rightarrow> Some (- n, rest))
          else (case read_digits s of None \<Rightarrow> None | Some (n, rest) \<Rightarrow> Some (n, rest)))"

text \<open>
  A string literal: an opening quote, then characters up to the closing quote.  Inside,
  two quotes in a row stand for one quote, and a backslash takes the next character
  with it.  \<open>read_quoted\<close> reads what follows the opening quote.
\<close>

definition backslash :: char where
  "backslash = CHR 0x5C"

definition unescape :: "char \<Rightarrow> char" where
  "unescape c =
     (if c = CHR ''n'' then CHR 0x0A
      else if c = CHR ''t'' then CHR 0x09
      else if c = CHR ''r'' then CHR 0x0D
      else if c = CHR ''0'' then CHR 0x00
      else c)"

fun read_quoted :: "string \<Rightarrow> string \<Rightarrow> (string \<times> string) option" where
  "read_quoted [] acc = None"
| "read_quoted [c] acc = (if c = quote then Some (acc, []) else None)"
| "read_quoted (c # d # ds) acc =
     (if c = quote then (if d = quote then read_quoted ds (acc @ [quote]) else Some (acc, d # ds))
      else if c = backslash then read_quoted ds (acc @ [unescape d])
      else read_quoted (d # ds) (acc @ [c]))"

definition read_string :: "string \<Rightarrow> (string \<times> string) option" where
  "read_string s =
     (case s of
        [] \<Rightarrow> None
      | c # cs \<Rightarrow> if c = quote then read_quoted cs [] else None)"

text \<open>The statements with placeholders, recognised as a whole.\<close>

definition parse_bound :: "string \<Rightarrow> sqlval list \<Rightarrow> command option" where
  "parse_bound q args =
     (if q = ''SELECT name, age FROM users WHERE id=$1''
      then (case args of [IntVal i] \<Rightarrow> Some (Select_user i) | _ \<Rightarrow> None)
      else if q = ''UPDATE users SET name=$1, age=$2 WHERE id=$3''
      then (case args of [StrVal n, IntVal a, IntVal i] \<Rightarrow> Some (Update_user n a i) | _ \<Rightarrow> None)
      else if q = ''DELETE FROM users WHERE id=$1''
      then (case args of [IntVal i] \<Rightarrow> Some (Delete_user i) | _ \<Rightarrow> None)
      else if q = ''INSERT INTO users(name, age) VALUES($1, $2) RETURNING id''
      then (case args of [StrVal n, IntVal a] \<Rightarrow> Some (Insert_user n a True) | _ \<Rightarrow> None)
      else if q = ''SELECT id, name, age FROM users LIMIT $1 OFFSET $2''
      then (case args of [IntVal c, IntVal s] \<Rightarrow> Some (Select_users c s) | _ \<Rightarrow> None)
      else None)"

text \<open>The statements without bind arguments, one reader for each.\<close>

definition parse_select_user :: "string \<Rightarrow> command option" where
  "parse_select_user q =
     Option.bind (strip_prefix ''SELECT name, age FROM users WHERE id='' q) (\<lambda>r1.
     Option.bind (read_int r1) (\<lambda>(i, r2).
     if r2 = [] then Some (Select_user i) else None))"

definition parse_update_user :: "string \<Rightarrow> command option" where
  "parse_update_user q =
     Option.bind (strip_prefix ''UPDATE users SET name='' q) (\<lambda>r1.
     Option.bind (read_string r1) (\<lambda>(n, r2).
     Option.bind (strip_prefix '', age='' r2) (\<lambda>r3.
     Option.bind (read_int r3) (\<lambda>(a, r4).
     Option.bind (strip_prefix '' WHERE id='' r4) (\<lambda>r5.
     Option.bind (read_int r5) (\<lambda>(i, r6).
     if r6 = [] then Some (Update_user n a i) else None))))))"

definition parse_delete_user :: "string \<Rightarrow> command option" where
  "parse_delete_user q =
     Option.bind (strip_prefix ''DELETE FROM users WHERE id='' q) (\<lambda>r1.
     Option.bind (read_int r1) (\<lambda>(i, r2).
     if r2 = [] then Some (Delete_user i) else None))"

definition parse_insert_user :: "string \<Rightarrow> command option" where
  "parse_insert_user q =
     Option.bind (strip_prefix ''INSERT INTO users(name, age) VALUES('' q) (\<lambda>r1.
     Option.bind (read_string r1) (\<lambda>(n, r2).
     Option.bind (strip_prefix '', '' r2) (\<lambda>r3.
     Option.bind (read_int r3) (\<lambda>(a, r4).
     if r4 = '')'' then Some (Insert_user n a False) else None))))"

definition parse_select_users :: "string \<Rightarrow> command option" where
  "parse_select_users q =
     Option.bind (strip_prefix ''SELECT id, name, age FROM users LIMIT '' q) (\<lambda>r1.
     Option.bind (read_int r1) (\<lambda>(c, r2).
     Option.bind (strip_prefix '' OFFSET '' r2) (\<lambda>r3.
     Option.bind (read_int r3) (\<lambda>(s, r4).
     if r4 = [] then Some (Select_users c s) else None))))"

fun first_some :: "'a option list \<Rightarrow> 'a option" where
  "first_some [] = None"
| "first_some (None # xs) = first_some xs"
| "first_some (Some x # xs) = Some x"

definition parse_literal :: "string \<Rightarrow> command option" where
  "parse_literal q =
     (if q = ''SELECT LAST_INSERT_ID()'' then Some Select_last_id
      else first_some [parse_select_user q, parse_update_user q, parse_delete_user q,
                       parse_insert_user q, parse_select_users q])"

definition parse :: "string \<Rightarrow> sqlval list \<Rightarrow> command option" where
  "parse q args =
     (case parse_bound q args of
        Some c \<Rightarrow> Some c
      | None \<Rightarrow> if args = [] then parse_literal q else None)"

text \<open>
  Running a command on a connection gives the number of affected rows, the result rows
  and the new store.  An insert takes the next id of the counter and notes it for its
  connection.  A negative limit or offset is refused.
\<close>

definition user_row :: "user \<Rightarrow> row" where
  "user_row u = [IntVal (ID u), StrVal (Name u), IntVal (Age u)]"

fun run :: "nat \<Rightarrow> command \<Rightarrow> store \<Rightarrow> string + (nat \<times> row list \<times> store)" where
  "run c (Select_user i) s =
     Inr (0, map (\<lambda>u. [StrVal (Name u), IntVal (Age u)]) (filter (\<lambda>u. ID u = i) (users_table s)), s)"
| "run c (Update_user n a i) s =
     Inr (length (filter (\<lambda>u. ID u = i) (users_table s)), [],
          s\<lparr>users_table := map (\<lambda>u. if ID u = i then u\<lparr>Name := n, Age := a\<rparr> else u) (users_table s)\<rparr>)"
| "run c (Delete_user i) s =
     Inr (length (filter (\<lambda>u. ID u = i) (users_table s)), [],
          s\<lparr>users_table := filter (\<lambda>u. ID u \<noteq> i) (users_table s)\<rparr>)"
| "run c (Insert_user n a returning) s =
     Inr (1, (if returning then [[IntVal (auto_increment s)]] else []),
          s\<lparr>users_table := users_table s @ [\<lparr>ID = auto_increment s, Name = n, Age = a\<rparr>],
            auto_increment := auto_increment s + 1,
            last_insert_ids := (c, auto_increment s) # last_insert_ids s\<rparr>)"
| "run c Select_last_id s = Inr (0, [[IntVal (last_insert_id s c)]], s)"
| "run c (Select_users n st) s =
     (if n < 0 \<or> st < 0 then Inl ''negative LIMIT or OFFSET''
      else Inr (0, map user_row (take (nat n) (drop (nat st) (users_table s))), s))"

text \<open>A call is served by the connection the pool chooses, which leaves the schedule.\<close>

definition mem_exec :: "string \<Rightarrow> sqlval list \<Rightarrow> store \<Rightarrow> (string + nat) \<times> store" where
  "mem_exec q args s =
     (case parse q args of
        None \<Rightarrow> (Inl ''syntax error'', served s)
      | Some c \<Rightarrow>
          (case run (connection s) c s of
             Inl m \<Rightarrow> (Inl m, served s)
           | Inr (n, rows, s') \<Rightarrow> (Inr n, served s')))"

definition mem_query :: "string \<Rightarrow> sqlval list \<Rightarrow> store \<Rightarrow> (string + row list) \<times> store" where
  "mem_query q args s =
     (case parse q args of
        None \<Rightarrow> (Inl ''syntax error'', served s)
      | Some c \<Rightarrow>
          (case run (connection s) c s of
             Inl m \<Rightarrow> (Inl m, served s)
           | Inr (n, rows, s') \<Rightarrow> (Inr rows, served s')))"

definition memdb :: "store driver" where
  "memdb = \<lparr>Exec = mem_exec, Query = mem_query, Close = (\<lambda>s. None)\<rparr>"

text \<open>
  The store after \<^verbatim>\<open>clearTable()\<close> of the test suite: no rows, the counter at 1, no
  connection that has inserted, every call on connection 0.
\<close>

definition empty_store :: store where
  "empty_store = \<lparr>users_table = [], auto_increment = 1, last_insert_ids = [], schedule = []\<rparr>"

section \<open>Recording what is handed to the driver\<close>

text \<open>
  \<open>recording drv\<close> behaves as \<open>drv\<close> and keeps, beside the database state, the list of
  the calls it received: the statement text and the bind arguments of each.
\<close>

type_synonym call = "string \<times> sqlval list"

definition recording :: "'db driver \<Rightarrow> (call list \<times> 'db) driver" where
  "recording drv =
     \<lparr>Exec = (\<lambda>q args st. (fst (Exec drv q args (snd st)), fst st @ [(q, args)], snd (Exec drv q args (snd st)))),
      Query = (\<lambda>q args st. (fst (Query drv q args (snd st)), fst st @ [(q, args)], snd (Query drv q args (snd st)))),
      Close = (\<lambda>st. Close drv (snd st))\<rparr>"

text \<open>The statement texts a run handed to the driver, given the state it ended in.\<close>

definition texts :: "call list \<times> 'db \<Rightarrow> string list" where
  "texts st = map fst (fst st)"

section \<open>Sample inputs\<close>

text \<open>
  The store after \<^verbatim>\<open>clearTable()\<close> and \<^verbatim>\<open>addUsers(1)\<close> of the test suite, the
  insert made on connection 0, and requests with a path variable, with query parameters
  and with a body.
\<close>

definition store1 :: store where
  "store1 =
     \<lparr>users_table = [\<lparr>ID = 1, Name = ''User 1'', Age = 10\<rparr>], auto_increment = 2,
      last_insert_ids = [(0, 1)], schedule = []\<rparr>"

definition path_request :: "string \<Rightarrow> request" where
  "path_request s = \<lparr>Vars = [(''id'', s)], Form = [], Body = None\<rparr>"

definition list_request :: "string \<Rightarrow> string \<Rightarrow> request" where
  "list_request start count = \<lparr>Vars = [], Form = [(''start'', start), (''count'', count)], Body = None\<rparr>"

definition body_request :: "string \<Rightarrow> user \<Rightarrow> request" where
  "body_request s u = \<lparr>Vars = [(''id'', s)], Form = [], Body = Some u\<rparr>"

text \<open>A text that does not go on with a digit: where an integer literal ends.\<close>

definition no_digit_ahead :: "string \<Rightarrow> bool" where
  "no_digit_ahead s \<longleftrightarrow> (case s of [] \<Rightarrow> True | c # cs \<Rightarrow> \<not> is_digit c)"


definition failing :: "string \<Rightarrow> unit driver" where
  "failing m =
     \<lparr>Exec = (\<lambda>q args d. (Inl m, d)), Query = (\<lambda>q args d. (Inl m, d)), Close = (\<lambda>d. None)\<rparr>"

definition close_failing :: "row list \<Rightarrow> string \<Rightarrow> unit driver" where
  "close_failing rows m =
     \<lparr>Exec = (\<lambda>q args d. (Inr 1, d)), Query = (\<lambda>q args d. (Inr rows, d)), Close = (\<lambda>d. Some m)\<rparr>"

text \<open>
  The glossary's clamp, as the specification words it: an input outside the range goes
  to the nearest bound of the range.
\<close>

definition spec_clamp :: "int \<Rightarrow> int \<Rightarrow> int \<Rightarrow> int" where
  "spec_clamp lo hi x = (if x < lo then lo else if hi < x then hi else x)"

text \<open>A name with a single quote in it, one with two quotes in a row, and a user with each.\<close>

definition quoted_name :: string where
  "quoted_name = ''O'' @ [quote] @ ''Brien''"

definition doubled_name :: string where
  "doubled_name = ''O'' @ [quote, quote] @ ''Brien''"

text \<open>A name that closes the string literal early and goes on with SQL of its own.\<close>

definition injected_name :: string where
  "injected_name = ''x'' @ [quote] @ '', 0); DROP TABLE users; -- ''"

section \<open>What Scan does to a user\<close>

lemma assign_ID: "assign d c u = Inr u' \<Longrightarrow> To_ID \<noteq> d \<Longrightarrow> ID u' = ID u"
  by (cases d) (auto split: sum.splits)

lemma scan_cols_ID: "To_ID \<notin> set ds \<Longrightarrow> ID (snd (scan_cols ds r u)) = ID u"
proof (induction ds r u rule: scan_cols.induct)
  case (1 d ds c cs u)
  then show ?case
    by (cases "assign d c u") (auto dest: assign_ID)
qed simp_all

lemma Scan_ID: "To_ID \<notin> set ds \<Longrightarrow> ID (snd (Scan ds r u)) = ID u"
  by (simp add: Scan_def scan_cols_ID)

lemma scan_cols_not_ErrNoRows: "fst (scan_cols ds r u) \<noteq> Some ErrNoRows"
  by (induction ds r u rule: scan_cols.induct) (auto split: sum.splits)

lemma Scan_not_ErrNoRows: "fst (Scan ds r u) \<noteq> Some ErrNoRows"
  by (simp add: Scan_def scan_cols_not_ErrNoRows)

section \<open>Fetching one user\<close>

lemma Row_Scan_ID: "To_ID \<notin> set ds \<Longrightarrow> ID (fst (snd (Row_Scan drv ds res u))) = ID u"
  using Scan_ID [of ds "projr (fst res)" u]
  by (cases res; cases "fst res"; cases "Scan ds (projr (fst res)) u")
     (auto simp: Row_Scan_def split: option.splits)

lemma Row_Scan_ErrNoRows:
  "fst (Row_Scan drv ds res u) = Some ErrNoRows \<longleftrightarrow> fst res = Inl ErrNoRows"
  using Scan_not_ErrNoRows [of ds "projr (fst res)" u]
  by (cases res; cases "fst res"; cases "Scan ds (projr (fst res)) u")
     (auto simp: Row_Scan_def split: option.splits)

lemma getUser_ID: "ID (fst (snd (getUser v drv u db))) = ID u"
  by (simp add: getUser_def Row_Scan_ID)

lemma getUser_failed_Code:
  "Code (getUser_failed e) = (if e = ErrNoRows then StatusNotFound else StatusInternalServerError)"
  by (cases e) (simp_all add: respondWithError_def respondWithJSON_def)

text \<open>
  C9.  \<open>getUser\<close> leaves the \<open>ID\<close> of the user it is called on as it was, whether it
  succeeds or fails; and when \<open>GET /user/{id}\<close> answers 200, the user in the response
  carries the id parsed from the path.
\<close>

theorem getUser_leaves_ID:
  "ID (fst (snd (getUser v drv u db))) = ID u \<and>
   (Code (fst (App_getUser v drv r db)) = StatusOK \<longrightarrow>
      (\<exists>n a. Content (fst (App_getUser v drv r db)) =
         marshal_user \<lparr>ID = fst (Atoi (lookup (Vars r) ''id'')), Name = n, Age = a\<rparr>))"
proof (intro conjI impI)
  show "ID (fst (snd (getUser v drv u db))) = ID u"
    by (rule getUser_ID)
next
  assume ok: "Code (fst (App_getUser v drv r db)) = StatusOK"
  obtain i e where at: "Atoi (lookup (Vars r) ''id'') = (i, e)"
    by (cases "Atoi (lookup (Vars r) ''id'')")
  obtain err u' db' where g: "getUser v drv (zero_user\<lparr>ID := i\<rparr>) db = (err, u', db')"
    by (cases "getUser v drv (zero_user\<lparr>ID := i\<rparr>) db")
  from ok at have e: "e = None"
    by (cases e) (simp_all add: App_getUser_def respondWithError_def respondWithJSON_def
        StatusOK_def StatusBadRequest_def)
  from ok at e g have err: "err = None"
    by (cases err) (simp_all add: App_getUser_def getUser_failed_Code
        StatusOK_def StatusNotFound_def StatusInternalServerError_def split: if_splits)
  from getUser_ID [of v drv "zero_user\<lparr>ID := i\<rparr>" db] g have "ID u' = i"
    by simp
  then have "u' = \<lparr>ID = i, Name = Name u', Age = Age u'\<rparr>"
    by (cases u') simp
  with at e g err have "Content (fst (App_getUser v drv r db)) =
      marshal_user \<lparr>ID = fst (Atoi (lookup (Vars r) ''id'')), Name = Name u', Age = Age u'\<rparr>"
    by (simp add: App_getUser_def respondWithJSON_def)
  then show "\<exists>n a. Content (fst (App_getUser v drv r db)) =
      marshal_user \<lparr>ID = fst (Atoi (lookup (Vars r) ''id'')), Name = n, Age = a\<rparr>"
    by blast
qed

theorem getUser_leaves_ID_witness:
  "ID (fst (snd (getUser Sprintf memdb (zero_user\<lparr>ID := 1\<rparr>) store1))) = 1 \<and>
   Code (fst (App_getUser Sprintf memdb (path_request ''1'') store1)) = StatusOK \<and>
   (\<exists>n a. Content (fst (App_getUser Sprintf memdb (path_request ''1'') store1)) =
      marshal_user \<lparr>ID = 1, Name = n, Age = a\<rparr>)"
proof -
  have ok: "Code (fst (App_getUser Sprintf memdb (path_request ''1'') store1)) = StatusOK"
    by code_simp
  have i: "fst (Atoi (lookup (Vars (path_request ''1'')) ''id'')) = 1"
    by code_simp
  have z: "ID (zero_user\<lparr>ID := 1\<rparr>) = 1"
    by simp
  from getUser_leaves_ID [of Sprintf memdb "zero_user\<lparr>ID := 1\<rparr>" store1 "path_request ''1''"] ok i z
  show ?thesis
    by simp
qed

section \<open>Integer literals: what \<open>fmt_d\<close> writes, \<open>read_int\<close> reads back\<close>


lemma digit_char_digit: "d < 10 \<Longrightarrow> is_digit (digit_char d) \<and> digit_val (digit_char d) = d"
  by (simp add: is_digit_def digit_val_def digit_char_def)

lemma digits_of_digits: "0 \<le> n \<Longrightarrow> list_all is_digit (digits_of n) \<and> digits_of n \<noteq> []"
proof (induction n rule: digits_of.induct)
  case (1 n)
  show ?case
  proof (cases "n < 10")
    case True
    with 1(2) show ?thesis
      by (subst (1 2) digits_of.simps) (simp add: digit_char_digit)
  next
    case False
    with 1 have "list_all is_digit (digits_of (n div 10))" by simp
    moreover have "nat (n mod 10) < 10" by simp
    ultimately show ?thesis using False
      by (subst (1 2) digits_of.simps) (simp add: digit_char_digit)
  qed
qed

lemma digits_value_append:
  "digits_value (xs @ ys) acc = Option.bind (digits_value xs acc) (digits_value ys)"
  by (induction xs arbitrary: acc) simp_all

lemma digits_value_digits_of: "0 \<le> n \<Longrightarrow> digits_value (digits_of n) 0 = Some n"
proof (induction n rule: digits_of.induct)
  case (1 n)
  show ?case
  proof (cases "n < 10")
    case True
    with 1(2) show ?thesis
      by (subst digits_of.simps) (simp add: digit_char_digit)
  next
    case False
    with 1 have "digits_value (digits_of (n div 10)) 0 = Some (n div 10)" by simp
    moreover have "nat (n mod 10) < 10" by simp
    ultimately show ?thesis using False
      by (subst digits_of.simps) (simp add: digits_value_append digit_char_digit)
  qed
qed


lemma takeWhile_digits:
  "list_all is_digit ds \<Longrightarrow> no_digit_ahead rest \<Longrightarrow>
   takeWhile is_digit (ds @ rest) = ds \<and> dropWhile is_digit (ds @ rest) = rest"
  by (induction ds) (auto simp: no_digit_ahead_def split: list.splits)

lemma read_digits_digits_of:
  "0 \<le> n \<Longrightarrow> no_digit_ahead rest \<Longrightarrow> read_digits (digits_of n @ rest) = Some (n, rest)"
  using digits_of_digits [of n] takeWhile_digits [of "digits_of n" rest]
  by (simp add: read_digits_def digits_value_digits_of)

lemma minus_not_digit: "\<not> is_digit CHR ''-''"
  by (simp add: is_digit_def)

lemma read_int_fmt_d:
  assumes "no_digit_ahead rest"
  shows "read_int (fmt_d i @ rest) = Some (i, rest)"
proof (cases "i < 0")
  case True
  with assms show ?thesis
    by (simp add: fmt_d_def read_int_def read_digits_digits_of)
next
  case False
  then have nn: "0 \<le> i" by simp
  with digits_of_digits [of i] obtain c cs where d: "digits_of i = c # cs" and c: "is_digit c"
    by (cases "digits_of i") auto
  from c minus_not_digit have "c \<noteq> CHR ''-''" by auto
  moreover from read_digits_digits_of [OF nn assms] d
  have "read_digits (c # cs @ rest) = Some (i, rest)" by simp
  ultimately show ?thesis using False d
    by (simp add: fmt_d_def read_int_def)
qed

lemma strip_prefix_append: "strip_prefix p (p @ s) = Some s"
  by (induction p) simp_all


lemma no_digit_ahead_simps:
  "no_digit_ahead []" "no_digit_ahead (c # cs) \<longleftrightarrow> \<not> is_digit c"
  by (simp_all add: no_digit_ahead_def)

lemma space_not_digit: "\<not> is_digit CHR '' ''"
  by (simp add: is_digit_def)

lemma read_int_fmt_d_end: "read_int (fmt_d i) = Some (i, [])"
  using read_int_fmt_d [of "[]" i] by (simp add: no_digit_ahead_simps)

lemma parse_bound_no_args: "parse_bound q [] = None"
  by (simp add: parse_bound_def)

lemma parse_getUser_stmt:
  "parse (fst (getUser_stmt v u)) (snd (getUser_stmt v u)) = Some (Select_user (ID u))"
proof (cases v)
  case Sprintf
  then show ?thesis
    by (simp add: getUser_stmt_def parse_def parse_bound_no_args parse_literal_def
        parse_select_user_def read_int_fmt_d_end)
next
  case Bound
  then show ?thesis
    by (simp add: getUser_stmt_def parse_def parse_bound_def)
qed

lemma parse_deleteUser_stmt:
  "parse (fst (deleteUser_stmt v u)) (snd (deleteUser_stmt v u)) = Some (Delete_user (ID u))"
proof (cases v)
  case Sprintf
  then show ?thesis
    by (simp add: deleteUser_stmt_def parse_def parse_bound_no_args parse_literal_def
        parse_select_user_def parse_update_user_def parse_delete_user_def read_int_fmt_d_end)
next
  case Bound
  then show ?thesis
    by (simp add: deleteUser_stmt_def parse_def parse_bound_def)
qed

lemma parse_getUsers_stmt:
  "parse (fst (getUsers_stmt v start count)) (snd (getUsers_stmt v start count)) = Some (Select_users count start)"
proof (cases v)
  case Sprintf
  have "read_int (fmt_d count @ '' OFFSET '' @ fmt_d start) = Some (count, '' OFFSET '' @ fmt_d start)"
    by (rule read_int_fmt_d) (simp add: no_digit_ahead_simps space_not_digit)
  with Sprintf show ?thesis
    by (simp add: getUsers_stmt_def parse_def parse_bound_no_args parse_literal_def
        parse_select_user_def parse_update_user_def parse_delete_user_def parse_insert_user_def
        parse_select_users_def read_int_fmt_d_end)
next
  case Bound
  then show ?thesis
    by (simp add: getUsers_stmt_def parse_def parse_bound_def)
qed

lemma parse_last_insert_id: "parse ''SELECT LAST_INSERT_ID()'' [] = Some Select_last_id"
  by (simp add: parse_def parse_bound_def parse_literal_def)

lemma parse_createUser_Bound:
  "parse (fst (createUser_stmt Bound u)) (snd (createUser_stmt Bound u)) = Some (Insert_user (Name u) (Age u) True)"
  by (simp add: createUser_stmt_def parse_def parse_bound_def)

lemma parse_updateUser_Bound:
  "parse (fst (updateUser_stmt Bound u)) (snd (updateUser_stmt Bound u)) = Some (Update_user (Name u) (Age u) (ID u))"
  by (simp add: updateUser_stmt_def parse_def parse_bound_def)

lemma parse_createUser_Sprintf:
  "parse (fst (createUser_stmt Sprintf u)) (snd (createUser_stmt Sprintf u)) = Some c \<Longrightarrow>
   \<exists>n a. c = Insert_user n a False"
  by (auto simp: createUser_stmt_def parse_def parse_bound_no_args parse_literal_def
        parse_select_user_def parse_update_user_def parse_delete_user_def parse_insert_user_def
        parse_select_users_def split: option.splits Option.bind_splits if_splits)

lemma parse_updateUser_Sprintf:
  "parse (fst (updateUser_stmt Sprintf u)) (snd (updateUser_stmt Sprintf u)) = Some c \<Longrightarrow>
   \<exists>n a i. c = Update_user n a i"
  by (auto simp: updateUser_stmt_def parse_def parse_bound_no_args parse_literal_def
        parse_select_user_def parse_update_user_def parse_delete_user_def parse_insert_user_def
        parse_select_users_def split: option.splits Option.bind_splits if_splits)


section \<open>The data-access functions on the store in memory\<close>

lemma served_simps:
  "users_table (served s) = users_table s"
  "auto_increment (served s) = auto_increment s"
  "last_insert_ids (served s) = last_insert_ids s"
  by (simp_all add: served_def split: list.splits)

lemma Scan_user_row: "Scan [To_ID, To_Name, To_Age] (user_row u) zero_user = (None, u)"
  by (simp add: Scan_def user_row_def scan_int_def scan_string_def zero_user_def)

lemma scan_rows_user_rows: "scan_rows (map user_row us) acc = (Some (acc @ us), None)"
  by (induction us arbitrary: acc) (simp_all add: Scan_user_row)

lemma mem_getUser:
  "getUser v memdb u s =
     (case filter (\<lambda>x. ID x = ID u) (users_table s) of
        [] \<Rightarrow> (Some ErrNoRows, u, served s)
      | x # xs \<Rightarrow> (None, u\<lparr>Name := Name x, Age := Age x\<rparr>, served s))"
  by (simp add: getUser_def Row_Scan_def QueryRow_def memdb_def mem_query_def parse_getUser_stmt
      Scan_def scan_int_def scan_string_def split: list.splits)

lemma mem_deleteUser:
  "deleteUser v memdb u s =
     (None, u, served (s\<lparr>users_table := filter (\<lambda>x. ID x \<noteq> ID u) (users_table s)\<rparr>))"
  by (simp add: deleteUser_def memdb_def mem_exec_def parse_deleteUser_stmt)

lemma mem_getUsers:
  "0 \<le> start \<Longrightarrow> 0 \<le> count \<Longrightarrow>
   getUsers v memdb start count s =
     (Some (take (nat count) (drop (nat start) (users_table s))), None, served s)"
  by (simp add: getUsers_def memdb_def mem_query_def parse_getUsers_stmt scan_rows_user_rows)

lemma mem_createUser_Bound:
  "createUser Bound memdb u s =
     (None, u\<lparr>ID := auto_increment s\<rparr>,
      served (s\<lparr>users_table := users_table s @ [\<lparr>ID = auto_increment s, Name = Name u, Age = Age u\<rparr>],
        auto_increment := auto_increment s + 1,
        last_insert_ids := (connection s, auto_increment s) # last_insert_ids s\<rparr>))"
  by (simp add: createUser_def Row_Scan_def QueryRow_def memdb_def mem_query_def parse_createUser_Bound
      Scan_def scan_int_def)

section \<open>Not found\<close>

lemma getUser_ErrNoRows:
  "fst (getUser v drv u db) = Some ErrNoRows \<longleftrightarrow>
   fst (Query drv (fst (getUser_stmt v u)) (snd (getUser_stmt v u)) db) = Inr []"
  by (auto simp: getUser_def Row_Scan_ErrNoRows QueryRow_def split: prod.splits sum.splits list.splits)

lemma getUser_failed_response:
  "getUser_failed e =
     (if e = ErrNoRows
      then \<lparr>Code = 404, ContentType = ''application/json'', Content = JObj [(''error'', JStr ''User not found'')]\<rparr>
      else \<lparr>Code = 500, ContentType = ''application/json'', Content = JObj [(''error'', JStr (Error e))]\<rparr>)"
  by (cases e) (simp_all add: respondWithError_def respondWithJSON_def StatusNotFound_def
      StatusInternalServerError_def)

text \<open>
  C4.  Fetching one user fails with \<open>ErrNoRows\<close> exactly when the query for that id
  delivers no row; on the store in memory, exactly when no row of the table has that
  id.  \<open>GET /user/{id}\<close> then answers 404 with \<open>{"error":"User not found"}\<close>, and
  answers 500 with the text of the error for every other failure of the fetch.
\<close>

theorem getUser_not_found:
  "(fst (getUser v drv u db) = Some ErrNoRows \<longleftrightarrow>
      fst (Query drv (fst (getUser_stmt v u)) (snd (getUser_stmt v u)) db) = Inr []) \<and>
   (fst (getUser v memdb u s) = Some ErrNoRows \<longleftrightarrow> filter (\<lambda>x. ID x = ID u) (users_table s) = []) \<and>
   (Atoi (lookup (Vars r) ''id'') = (i, None) \<longrightarrow>
    fst (getUser v drv (zero_user\<lparr>ID := i\<rparr>) db) = Some e \<longrightarrow>
      fst (App_getUser v drv r db) =
        (if e = ErrNoRows
         then \<lparr>Code = 404, ContentType = ''application/json'',
               Content = JObj [(''error'', JStr ''User not found'')]\<rparr>
         else \<lparr>Code = 500, ContentType = ''application/json'',
               Content = JObj [(''error'', JStr (Error e))]\<rparr>))"
proof (intro conjI impI)
  show "fst (getUser v drv u db) = Some ErrNoRows \<longleftrightarrow>
      fst (Query drv (fst (getUser_stmt v u)) (snd (getUser_stmt v u)) db) = Inr []"
    by (rule getUser_ErrNoRows)
next
  show "fst (getUser v memdb u s) = Some ErrNoRows \<longleftrightarrow> filter (\<lambda>x. ID x = ID u) (users_table s) = []"
    by (simp add: mem_getUser split: list.splits)
next
  assume at: "Atoi (lookup (Vars r) ''id'') = (i, None)"
    and g: "fst (getUser v drv (zero_user\<lparr>ID := i\<rparr>) db) = Some e"
  obtain u' db' where "getUser v drv (zero_user\<lparr>ID := i\<rparr>) db = (Some e, u', db')"
    using g by (cases "getUser v drv (zero_user\<lparr>ID := i\<rparr>) db") auto
  with at have "fst (App_getUser v drv r db) = getUser_failed e"
    by (simp add: App_getUser_def)
  then show "fst (App_getUser v drv r db) =
        (if e = ErrNoRows
         then \<lparr>Code = 404, ContentType = ''application/json'',
               Content = JObj [(''error'', JStr ''User not found'')]\<rparr>
         else \<lparr>Code = 500, ContentType = ''application/json'',
               Content = JObj [(''error'', JStr (Error e))]\<rparr>)"
    by (simp only: getUser_failed_response)
qed

theorem getUser_not_found_witness:
  "fst (getUser Sprintf memdb (zero_user\<lparr>ID := 45\<rparr>) store1) = Some ErrNoRows \<and>
   fst (App_getUser Sprintf memdb (path_request ''45'') store1) =
     \<lparr>Code = 404, ContentType = ''application/json'',
      Content = JObj [(''error'', JStr ''User not found'')]\<rparr> \<and>
   fst (App_getUser Bound (failing ''connection refused'') (path_request ''45'') ()) =
     \<lparr>Code = 500, ContentType = ''application/json'',
      Content = JObj [(''error'', JStr ''connection refused'')]\<rparr>"
proof -
  have at: "Atoi (lookup (Vars (path_request ''45'')) ''id'') = (45, None)"
    by code_simp
  have none: "filter (\<lambda>x. ID x = ID (zero_user\<lparr>ID := 45\<rparr>)) (users_table store1) = []"
    by (simp add: store1_def)
  have g1: "fst (getUser Sprintf memdb (zero_user\<lparr>ID := 45\<rparr>) store1) = Some ErrNoRows"
    using getUser_not_found [where v = Sprintf and u = "zero_user\<lparr>ID := 45\<rparr>" and s = store1,
        THEN conjunct2, THEN conjunct1] none
    by simp
  have g2: "fst (getUser Bound (failing ''connection refused'') (zero_user\<lparr>ID := 45\<rparr>) ()) =
      Some (DriverError ''connection refused'')"
    by (simp add: getUser_def Row_Scan_def QueryRow_def failing_def)
  from getUser_not_found [where v = Sprintf and drv = memdb and db = store1
      and r = "path_request ''45''" and i = 45 and e = ErrNoRows,
      THEN conjunct2, THEN conjunct2] at g1
  have r1: "fst (App_getUser Sprintf memdb (path_request ''45'') store1) =
      \<lparr>Code = 404, ContentType = ''application/json'',
       Content = JObj [(''error'', JStr ''User not found'')]\<rparr>"
    by simp
  from getUser_not_found [where v = Bound and drv = "failing ''connection refused''" and db = "()"
      and r = "path_request ''45''" and i = 45 and e = "DriverError ''connection refused''",
      THEN conjunct2, THEN conjunct2] at g2
  have r2: "fst (App_getUser Bound (failing ''connection refused'') (path_request ''45'') ()) =
      \<lparr>Code = 500, ContentType = ''application/json'',
       Content = JObj [(''error'', JStr ''connection refused'')]\<rparr>"
    by simp
  from g1 r1 r2 show ?thesis
    by simp
qed

section \<open>Listing users\<close>




text \<open>
  C8.  When the query succeeds and delivers no row, \<open>getUsers\<close> returns the empty
  slice, not nil, and no error; \<open>GET /users\<close> then answers 200 with \<open>[]\<close>.
\<close>

theorem getUsers_empty:
  "(Query drv (fst (getUsers_stmt v start count)) (snd (getUsers_stmt v start count)) db = (Inr [], db') \<longrightarrow>
      getUsers v drv start count db = (Some [], None, db')) \<and>
   (Query drv (fst (getUsers_stmt v (fst (getUsers_args r)) (snd (getUsers_args r))))
              (snd (getUsers_stmt v (fst (getUsers_args r)) (snd (getUsers_args r)))) db = (Inr [], db') \<longrightarrow>
      App_getUsers v drv r db =
        (\<lparr>Code = 200, ContentType = ''application/json'', Content = JArr []\<rparr>, db'))"
  by (simp add: getUsers_def App_getUsers_def respondWithJSON_def StatusOK_def)

theorem getUsers_empty_witness:
  "getUsers Sprintf memdb 0 10 empty_store = (Some [], None, empty_store) \<and>
   App_getUsers Sprintf memdb (list_request [] []) empty_store =
     (\<lparr>Code = 200, ContentType = ''application/json'', Content = JArr []\<rparr>, empty_store)"
proof -
  have a: "getUsers_args (list_request [] []) = (0, 10)"
    by code_simp
  have q: "Query memdb (fst (getUsers_stmt Sprintf 0 10)) (snd (getUsers_stmt Sprintf 0 10)) empty_store =
      (Inr [], empty_store)"
    by code_simp
  from getUsers_empty [where v = Sprintf and drv = memdb and start = 0 and count = 10
      and db = empty_store and db' = empty_store and r = "list_request [] []"] a q
  show ?thesis
    by simp
qed



section \<open>Updating and deleting\<close>

lemma App_deleteUser_twice:
  assumes "Atoi (lookup (Vars r) ''id'') = (i, None)"
  shows "App_deleteUser v memdb r s =
           (\<lparr>Code = 200, ContentType = ''application/json'', Content = JObj [(''result'', JStr ''success'')]\<rparr>,
            served (s\<lparr>users_table := filter (\<lambda>x. ID x \<noteq> i) (users_table s)\<rparr>))"
  using assms
  by (simp add: App_deleteUser_def mem_deleteUser respondWithJSON_def StatusOK_def zero_user_def)

text \<open>
  C5.  \<open>updateUser\<close> and \<open>deleteUser\<close> return no error whenever \<open>Exec\<close> succeeds,
  whatever number of affected rows it reports.  So \<open>DELETE /user/{id}\<close> answers 200
  with \<open>{"result":"success"}\<close> whenever \<open>Exec\<close> succeeds; on the store in memory it
  does so for every id, with or without a row, and a second delete of the same id
  answers 200 again.
\<close>

theorem update_delete_ignore_row_count:
  "(Exec drv (fst (updateUser_stmt v u)) (snd (updateUser_stmt v u)) db = (Inr n, db') \<longrightarrow>
      updateUser v drv u db = (None, u, db')) \<and>
   (Exec drv (fst (deleteUser_stmt v u)) (snd (deleteUser_stmt v u)) db = (Inr n, db') \<longrightarrow>
      deleteUser v drv u db = (None, u, db')) \<and>
   (Atoi (lookup (Vars r) ''id'') = (i, None) \<longrightarrow>
    Exec drv (fst (deleteUser_stmt v (zero_user\<lparr>ID := i\<rparr>))) (snd (deleteUser_stmt v (zero_user\<lparr>ID := i\<rparr>))) db
      = (Inr n, db') \<longrightarrow>
      App_deleteUser v drv r db =
        (\<lparr>Code = 200, ContentType = ''application/json'',
          Content = JObj [(''result'', JStr ''success'')]\<rparr>, db')) \<and>
   (Atoi (lookup (Vars r) ''id'') = (i, None) \<longrightarrow>
      fst (App_deleteUser v memdb r s) =
        \<lparr>Code = 200, ContentType = ''application/json'', Content = JObj [(''result'', JStr ''success'')]\<rparr> \<and>
      fst (App_deleteUser v memdb r (snd (App_deleteUser v memdb r s))) =
        \<lparr>Code = 200, ContentType = ''application/json'', Content = JObj [(''result'', JStr ''success'')]\<rparr>)"
proof (intro conjI)
  show "Exec drv (fst (updateUser_stmt v u)) (snd (updateUser_stmt v u)) db = (Inr n, db') \<longrightarrow>
      updateUser v drv u db = (None, u, db')"
    by (simp add: updateUser_def)
next
  show "Exec drv (fst (deleteUser_stmt v u)) (snd (deleteUser_stmt v u)) db = (Inr n, db') \<longrightarrow>
      deleteUser v drv u db = (None, u, db')"
    by (simp add: deleteUser_def)
next
  show "Atoi (lookup (Vars r) ''id'') = (i, None) \<longrightarrow>
    Exec drv (fst (deleteUser_stmt v (zero_user\<lparr>ID := i\<rparr>))) (snd (deleteUser_stmt v (zero_user\<lparr>ID := i\<rparr>))) db
      = (Inr n, db') \<longrightarrow>
      App_deleteUser v drv r db =
        (\<lparr>Code = 200, ContentType = ''application/json'',
          Content = JObj [(''result'', JStr ''success'')]\<rparr>, db')"
    by (simp add: deleteUser_def App_deleteUser_def respondWithJSON_def StatusOK_def)
next
  show "Atoi (lookup (Vars r) ''id'') = (i, None) \<longrightarrow>
      fst (App_deleteUser v memdb r s) =
        \<lparr>Code = 200, ContentType = ''application/json'', Content = JObj [(''result'', JStr ''success'')]\<rparr> \<and>
      fst (App_deleteUser v memdb r (snd (App_deleteUser v memdb r s))) =
        \<lparr>Code = 200, ContentType = ''application/json'', Content = JObj [(''result'', JStr ''success'')]\<rparr>"
    by (simp add: App_deleteUser_twice)
qed

theorem update_delete_ignore_row_count_witness:
  "deleteUser Sprintf memdb (zero_user\<lparr>ID := 1\<rparr>) store1 =
     (None, zero_user\<lparr>ID := 1\<rparr>, store1\<lparr>users_table := []\<rparr>) \<and>
   deleteUser Sprintf memdb (zero_user\<lparr>ID := 1\<rparr>) (store1\<lparr>users_table := []\<rparr>) =
     (None, zero_user\<lparr>ID := 1\<rparr>, store1\<lparr>users_table := []\<rparr>) \<and>
   updateUser Bound memdb \<lparr>ID = 7, Name = ''X'', Age = 21\<rparr> store1 =
     (None, \<lparr>ID = 7, Name = ''X'', Age = 21\<rparr>, store1) \<and>
   fst (App_deleteUser Sprintf memdb (path_request ''1'') store1) =
     \<lparr>Code = 200, ContentType = ''application/json'', Content = JObj [(''result'', JStr ''success'')]\<rparr> \<and>
   fst (App_deleteUser Sprintf memdb (path_request ''1'') (snd (App_deleteUser Sprintf memdb (path_request ''1'') store1))) =
     \<lparr>Code = 200, ContentType = ''application/json'', Content = JObj [(''result'', JStr ''success'')]\<rparr>"
proof -
  let ?u = "zero_user\<lparr>ID := 1\<rparr>"
  let ?w = "\<lparr>ID = 7, Name = ''X'', Age = 21\<rparr>"
  have e1: "Exec memdb (fst (deleteUser_stmt Sprintf ?u)) (snd (deleteUser_stmt Sprintf ?u)) store1 =
      (Inr 1, store1\<lparr>users_table := []\<rparr>)"
    by code_simp
  have e0: "Exec memdb (fst (deleteUser_stmt Sprintf ?u)) (snd (deleteUser_stmt Sprintf ?u))
      (store1\<lparr>users_table := []\<rparr>) = (Inr 0, store1\<lparr>users_table := []\<rparr>)"
    by code_simp
  have e2: "Exec memdb (fst (updateUser_stmt Bound ?w)) (snd (updateUser_stmt Bound ?w)) store1 =
      (Inr 0, store1)"
    by code_simp
  have at: "Atoi (lookup (Vars (path_request ''1'')) ''id'') = (1, None)"
    by code_simp
  note t = update_delete_ignore_row_count
  have d1: "deleteUser Sprintf memdb ?u store1 = (None, ?u, store1\<lparr>users_table := []\<rparr>)"
    by (rule t [THEN conjunct2, THEN conjunct1, THEN mp, OF e1])
  have d0: "deleteUser Sprintf memdb ?u (store1\<lparr>users_table := []\<rparr>) = (None, ?u, store1\<lparr>users_table := []\<rparr>)"
    by (rule t [THEN conjunct2, THEN conjunct1, THEN mp, OF e0])
  have u2: "updateUser Bound memdb ?w store1 = (None, ?w, store1)"
    by (rule t [THEN conjunct1, THEN mp, OF e2])
  note h = t [where v = Sprintf and r = "path_request ''1''" and i = 1 and s = store1,
      THEN conjunct2, THEN conjunct2, THEN conjunct2, THEN mp, OF at]
  from d1 d0 u2 h show ?thesis
    by simp
qed

lemma App_updateUser_Code:
  assumes "Atoi (lookup (Vars r) ''id'') = (i, None)" and "Body r = Some b"
  shows "fst (App_updateUser v drv r db) =
     (case fst (Exec drv (fst (updateUser_stmt v (b\<lparr>ID := i\<rparr>))) (snd (updateUser_stmt v (b\<lparr>ID := i\<rparr>))) db) of
        Inl m \<Rightarrow> \<lparr>Code = 500, ContentType = ''application/json'', Content = JObj [(''error'', JStr m)]\<rparr>
      | Inr n \<Rightarrow> \<lparr>Code = 200, ContentType = ''application/json'', Content = marshal_user (b\<lparr>ID := i\<rparr>)\<rparr>)"
  using assms
  by (simp add: App_updateUser_def updateUser_def respondWithError_def respondWithJSON_def
      StatusOK_def StatusInternalServerError_def split: prod.splits sum.splits)

text \<open>
  C6.  For a \<open>PUT /user/{id}\<close> whose path id parses and whose body decodes: the one call
  the handler makes to the driver is the update statement built from the path id and
  the name and age of the body; an id in the body changes nothing; a 200 response
  carries exactly that record; and the driver's \<open>Query\<close> plays no part, so nothing is
  fetched again.
\<close>

theorem App_updateUser_path_id:
  "Atoi (lookup (Vars r) ''id'') = (i, None) \<longrightarrow> Body r = Some b \<longrightarrow>
     fst (snd (App_updateUser v (recording drv) r (calls, db))) =
       calls @ [updateUser_stmt v \<lparr>ID = i, Name = Name b, Age = Age b\<rparr>] \<and>
     App_updateUser v drv (r\<lparr>Body := Some (b\<lparr>ID := x\<rparr>)\<rparr>) db = App_updateUser v drv r db \<and>
     (Code (fst (App_updateUser v drv r db)) = 200 \<longrightarrow>
        Content (fst (App_updateUser v drv r db)) =
          JObj [(''id'', JNum i), (''name'', JStr (Name b)), (''age'', JNum (Age b))]) \<and>
     App_updateUser v (drv\<lparr>Query := qf\<rparr>) r db = App_updateUser v drv r db"
proof (intro impI conjI)
  assume at: "Atoi (lookup (Vars r) ''id'') = (i, None)" and body: "Body r = Some b"
  have b: "b\<lparr>ID := i\<rparr> = \<lparr>ID = i, Name = Name b, Age = Age b\<rparr>"
    by (cases b) simp
  from at body show "fst (snd (App_updateUser v (recording drv) r (calls, db))) =
       calls @ [updateUser_stmt v \<lparr>ID = i, Name = Name b, Age = Age b\<rparr>]"
    by (simp add: App_updateUser_def updateUser_def recording_def b split: prod.splits sum.splits)
  from at body show "App_updateUser v drv (r\<lparr>Body := Some (b\<lparr>ID := x\<rparr>)\<rparr>) db = App_updateUser v drv r db"
    by (simp add: App_updateUser_def)
  from at body show "App_updateUser v (drv\<lparr>Query := qf\<rparr>) r db = App_updateUser v drv r db"
    by (simp add: App_updateUser_def updateUser_def)
  assume "Code (fst (App_updateUser v drv r db)) = 200"
  with App_updateUser_Code [OF at body, of v drv db]
  show "Content (fst (App_updateUser v drv r db)) =
          JObj [(''id'', JNum i), (''name'', JStr (Name b)), (''age'', JNum (Age b))]"
    by (simp add: marshal_user_def split: sum.splits)
qed

theorem App_updateUser_path_id_witness:
  "fst (snd (App_updateUser Bound (recording memdb) (body_request ''1'' \<lparr>ID = 99, Name = ''X'', Age = 21\<rparr>) ([], store1))) =
     [(''UPDATE users SET name=$1, age=$2 WHERE id=$3'', [StrVal ''X'', IntVal 21, IntVal 1])] \<and>
   Code (fst (App_updateUser Bound memdb (body_request ''1'' \<lparr>ID = 99, Name = ''X'', Age = 21\<rparr>) store1)) = 200 \<and>
   Content (fst (App_updateUser Bound memdb (body_request ''1'' \<lparr>ID = 99, Name = ''X'', Age = 21\<rparr>) store1)) =
     JObj [(''id'', JNum 1), (''name'', JStr ''X''), (''age'', JNum 21)]"
proof -
  let ?b = "\<lparr>ID = 99, Name = ''X'', Age = 21\<rparr>"
  let ?r = "body_request ''1'' ?b"
  have at: "Atoi (lookup (Vars ?r) ''id'') = (1, None)"
    by code_simp
  have body: "Body ?r = Some ?b"
    by (simp add: body_request_def)
  have ok: "Code (fst (App_updateUser Bound memdb ?r store1)) = 200"
    by code_simp
  note t = App_updateUser_path_id [where v = Bound and drv = memdb and r = ?r and i = 1 and b = ?b
      and db = store1 and calls = "[]", THEN mp, OF at, THEN mp, OF body]
  from t ok show ?thesis
    by (simp add: updateUser_stmt_def)
qed

section \<open>Creating a user\<close>

text \<open>
  Whatever \<open>createUser\<close> returns, it has touched no field of the user but the id, and
  what it does apart from that does not depend on the id the user came with.
\<close>

lemma Scan_ID_only: "snd (Scan [To_ID] r u) = u\<lparr>ID := ID (snd (Scan [To_ID] r u))\<rparr>"
  by (cases r; cases "tl r") (auto simp: Scan_def split: sum.splits if_splits)

lemma Row_Scan_ID_only:
  "fst (snd (Row_Scan drv [To_ID] res u)) = u\<lparr>ID := ID (fst (snd (Row_Scan drv [To_ID] res u)))\<rparr>"
  using Scan_ID_only [of "projr (fst res)" u]
  by (cases res; cases "fst res"; cases "Scan [To_ID] (projr (fst res)) u")
     (auto simp: Row_Scan_def split: option.splits)

lemma createUser_ID_only:
  "fst (snd (createUser v drv u db)) = u\<lparr>ID := ID (fst (snd (createUser v drv u db)))\<rparr>"
  by (cases v)
     (auto simp: createUser_def Row_Scan_ID_only [symmetric] split: prod.splits sum.splits)

lemma createUser_keeps_name_age:
  "Name (fst (snd (createUser v drv u db))) = Name u \<and> Age (fst (snd (createUser v drv u db))) = Age u"
proof -
  have "Name (u\<lparr>ID := ID (fst (snd (createUser v drv u db)))\<rparr>) = Name u \<and>
      Age (u\<lparr>ID := ID (fst (snd (createUser v drv u db)))\<rparr>) = Age u"
    by simp
  then show ?thesis
    by (simp only: createUser_ID_only [symmetric])
qed

lemma Scan_ID_update:
  "fst (Scan [To_ID] r (u\<lparr>ID := x\<rparr>)) = fst (Scan [To_ID] r u) \<and>
   (fst (Scan [To_ID] r u) = None \<longrightarrow> snd (Scan [To_ID] r (u\<lparr>ID := x\<rparr>)) = snd (Scan [To_ID] r u))"
  by (cases r; cases "tl r") (auto simp: Scan_def split: sum.splits)

lemma Row_Scan_ID_update:
  "fst (Row_Scan drv [To_ID] res (u\<lparr>ID := x\<rparr>)) = fst (Row_Scan drv [To_ID] res u) \<and>
   snd (snd (Row_Scan drv [To_ID] res (u\<lparr>ID := x\<rparr>))) = snd (snd (Row_Scan drv [To_ID] res u)) \<and>
   (fst (Row_Scan drv [To_ID] res u) = None \<longrightarrow>
      fst (snd (Row_Scan drv [To_ID] res (u\<lparr>ID := x\<rparr>))) = fst (snd (Row_Scan drv [To_ID] res u)))"
  using Scan_ID_update [where r = "projr (fst res)" and u = u and x = x]
  by (cases res; cases "fst res"; cases "Scan [To_ID] (projr (fst res)) u";
      cases "Scan [To_ID] (projr (fst res)) (u\<lparr>ID := x\<rparr>)")
     (auto simp: Row_Scan_def split: option.splits)

lemma createUser_stmt_ID: "createUser_stmt v (u\<lparr>ID := x\<rparr>) = createUser_stmt v u"
  by (cases v) (simp_all add: createUser_stmt_def)

lemma createUser_ID_update:
  "fst (createUser v drv (u\<lparr>ID := x\<rparr>) db) = fst (createUser v drv u db) \<and>
   snd (snd (createUser v drv (u\<lparr>ID := x\<rparr>) db)) = snd (snd (createUser v drv u db)) \<and>
   (fst (createUser v drv u db) = None \<longrightarrow>
      fst (snd (createUser v drv (u\<lparr>ID := x\<rparr>) db)) = fst (snd (createUser v drv u db)))"
  by (cases v)
     (auto simp: createUser_def createUser_stmt_ID Row_Scan_ID_update split: prod.splits sum.splits)

lemma App_createUser_body_id:
  "App_createUser v drv (r\<lparr>Body := Some (b\<lparr>ID := x\<rparr>)\<rparr>) db = App_createUser v drv (r\<lparr>Body := Some b\<rparr>) db"
  using createUser_ID_update [where v = v and drv = drv and u = b and x = x and db = db]
  by (cases "createUser v drv b db"; cases "createUser v drv (b\<lparr>ID := x\<rparr>) db")
     (auto simp: App_createUser_def split: option.splits)

lemma App_createUser_failed:
  "Body r = Some u \<Longrightarrow> fst (createUser v drv u db) = Some e \<Longrightarrow>
   fst (App_createUser v drv r db) =
     \<lparr>Code = 500, ContentType = ''application/json'', Content = JObj [(''error'', JStr (Error e))]\<rparr>"
  by (cases "createUser v drv u db")
     (simp add: App_createUser_def respondWithError_def respondWithJSON_def StatusInternalServerError_def)

text \<open>
  When closing the rows fails after the scan, \<open>createUser\<close> returns the error with the
  id already assigned.
\<close>

lemma createUser_close_fails:
  "createUser Bound (close_failing [[IntVal 7]] ''bad connection'') \<lparr>ID = 0, Name = ''test user'', Age = 30\<rparr> () =
     (Some (DriverError ''bad connection''), \<lparr>ID = 7, Name = ''test user'', Age = 30\<rparr>, ())"
  by (simp add: createUser_def Row_Scan_def QueryRow_def close_failing_def Scan_def scan_int_def)

text \<open>
  On the store in memory: the insert that returns its id gives the id it took from the
  counter, on every connection.  The insert followed by \<^verbatim>\<open>LAST_INSERT_ID()\<close> gives it
  when the pool serves both calls on one connection.
\<close>

lemma mem_createUser_Sprintf_one_connection:
  assumes same: "connection (served s) = connection s"
    and ok: "fst (createUser Sprintf memdb u s) = None"
  shows "ID (fst (snd (createUser Sprintf memdb u s))) = auto_increment s"
proof (cases "parse (fst (createUser_stmt Sprintf u)) (snd (createUser_stmt Sprintf u))")
  case None
  with ok show ?thesis
    by (simp add: createUser_def memdb_def mem_exec_def)
next
  case (Some c)
  with parse_createUser_Sprintf obtain n a where "c = Insert_user n a False"
    by blast
  with Some same show ?thesis
    by (simp add: createUser_def memdb_def mem_exec_def mem_query_def Row_Scan_def QueryRow_def
        parse_last_insert_id Scan_def scan_int_def last_insert_id_def connection_def served_def
        split: list.splits)
qed

text \<open>
  C7 on the \<^verbatim>\<open>Sprintf\<close> variant.  \<open>createUser\<close> drops the result of the insert and
  asks for \<^verbatim>\<open>LAST_INSERT_ID()\<close> in a second call, which the pool may serve on another
  connection.  On an empty table, with the insert on connection 0 and the second call
  on connection 1, \<open>POST /user\<close> answers 201 with id 0 while the row it stored has id 1.
  With one user in the table, inserted on connection 0, the insert on connection 1 and
  the second call on connection 0, it answers 201 with id 1, the id of the other user,
  while the row it stored has id 2.  The variant whose insert returns the id reports
  the id of its row on the same stores.
\<close>

theorem createUser_id_of_other_connection:
  "App_createUser Sprintf memdb (body_request [] \<lparr>ID = 99, Name = ''test user'', Age = 30\<rparr>)
       (empty_store\<lparr>schedule := [0, 1]\<rparr>) =
     (\<lparr>Code = 201, ContentType = ''application/json'',
       Content = JObj [(''id'', JNum 0), (''name'', JStr ''test user''), (''age'', JNum 30)]\<rparr>,
      \<lparr>users_table = [\<lparr>ID = 1, Name = ''test user'', Age = 30\<rparr>], auto_increment = 2,
       last_insert_ids = [(0, 1)], schedule = []\<rparr>) \<and>
   App_createUser Sprintf memdb (body_request [] \<lparr>ID = 99, Name = ''test user'', Age = 30\<rparr>)
       (store1\<lparr>schedule := [1, 0]\<rparr>) =
     (\<lparr>Code = 201, ContentType = ''application/json'',
       Content = JObj [(''id'', JNum 1), (''name'', JStr ''test user''), (''age'', JNum 30)]\<rparr>,
      \<lparr>users_table = [\<lparr>ID = 1, Name = ''User 1'', Age = 10\<rparr>, \<lparr>ID = 2, Name = ''test user'', Age = 30\<rparr>],
       auto_increment = 3, last_insert_ids = [(1, 2), (0, 1)], schedule = []\<rparr>) \<and>
   fst (App_createUser Bound memdb (body_request [] \<lparr>ID = 99, Name = ''test user'', Age = 30\<rparr>)
       (empty_store\<lparr>schedule := [0, 1]\<rparr>)) =
     \<lparr>Code = 201, ContentType = ''application/json'',
      Content = JObj [(''id'', JNum 1), (''name'', JStr ''test user''), (''age'', JNum 30)]\<rparr> \<and>
   fst (App_createUser Bound memdb (body_request [] \<lparr>ID = 99, Name = ''test user'', Age = 30\<rparr>)
       (store1\<lparr>schedule := [1, 0]\<rparr>)) =
     \<lparr>Code = 201, ContentType = ''application/json'',
      Content = JObj [(''id'', JNum 2), (''name'', JStr ''test user''), (''age'', JNum 30)]\<rparr>"
  by code_simp

section \<open>The parameters of the list handler\<close>

lemma getUsers_args_eq:
  "getUsers_args r =
     (max 0 (fst (Atoi (FormValue r ''start''))),
      (if 1 \<le> fst (Atoi (FormValue r ''count'')) \<and> fst (Atoi (FormValue r ''count'')) \<le> 10
       then fst (Atoi (FormValue r ''count'')) else 10))"
  by (auto simp: getUsers_args_def Let_def)

lemma getUsers_args_bounds:
  "0 \<le> fst (getUsers_args r) \<and> 1 \<le> snd (getUsers_args r) \<and> snd (getUsers_args r) \<le> 10"
  by (simp add: getUsers_args_eq)

lemma App_getUsers_mem:
  "App_getUsers v memdb r s =
     (\<lparr>Code = 200, ContentType = ''application/json'',
       Content = JArr (map marshal_user
         (take (nat (snd (getUsers_args r))) (drop (nat (fst (getUsers_args r))) (users_table s))))\<rparr>,
      served s)"
proof -
  from getUsers_args_bounds [of r]
  have "0 \<le> fst (getUsers_args r)" and "0 \<le> snd (getUsers_args r)"
    by simp_all
  then show ?thesis
    by (simp add: App_getUsers_def mem_getUsers respondWithJSON_def StatusOK_def)
qed

text \<open>
  C2, as the claim states it, fails at \<open>count=0\<close>: the nearest bound of the range
  \<open>[1,10]\<close> is 1, and the handler passes 10.
\<close>

theorem getUsers_count_zero_counterexample:
  "snd (getUsers_args (list_request ''0'' ''0'')) = 10 \<and>
   spec_clamp 1 10 (fst (Atoi (FormValue (list_request ''0'' ''0'') ''count''))) = 1 \<and>
   snd (getUsers_args (list_request ''0'' ''0'')) \<noteq>
     spec_clamp 1 10 (fst (Atoi (FormValue (list_request ''0'' ''0'') ''count'')))"
  by code_simp

text \<open>
  C2, amended.  For every request, the start passed to \<open>getUsers\<close> is the parsed
  \<open>start\<close> when that is not negative and 0 otherwise; the count passed is the parsed
  \<open>count\<close> when that lies in \<open>[1,10]\<close> and 10 otherwise.  So the count is always in
  \<open>[1,10]\<close> and the start never negative.  Out-of-range values cause no error
  response: on the store in memory every request is answered 200.
\<close>

theorem getUsers_args_range:
  "getUsers_args r =
     (max 0 (fst (Atoi (FormValue r ''start''))),
      (if 1 \<le> fst (Atoi (FormValue r ''count'')) \<and> fst (Atoi (FormValue r ''count'')) \<le> 10
       then fst (Atoi (FormValue r ''count'')) else 10)) \<and>
   0 \<le> fst (getUsers_args r) \<and> 1 \<le> snd (getUsers_args r) \<and> snd (getUsers_args r) \<le> 10 \<and>
   App_getUsers v drv r db =
     (case getUsers v drv (fst (getUsers_args r)) (snd (getUsers_args r)) db of
        (users, Some err, db') \<Rightarrow>
          (\<lparr>Code = 500, ContentType = ''application/json'', Content = JObj [(''error'', JStr (Error err))]\<rparr>, db')
      | (users, None, db') \<Rightarrow>
          (\<lparr>Code = 200, ContentType = ''application/json'', Content = Marshal (Users users)\<rparr>, db')) \<and>
   Code (fst (App_getUsers v memdb r s)) = 200"
proof (intro conjI)
  show "getUsers_args r =
     (max 0 (fst (Atoi (FormValue r ''start''))),
      (if 1 \<le> fst (Atoi (FormValue r ''count'')) \<and> fst (Atoi (FormValue r ''count'')) \<le> 10
       then fst (Atoi (FormValue r ''count'')) else 10))"
    by (rule getUsers_args_eq)
  show "0 \<le> fst (getUsers_args r)" "1 \<le> snd (getUsers_args r)" "snd (getUsers_args r) \<le> 10"
    using getUsers_args_bounds [of r] by simp_all
  show "App_getUsers v drv r db =
     (case getUsers v drv (fst (getUsers_args r)) (snd (getUsers_args r)) db of
        (users, Some err, db') \<Rightarrow>
          (\<lparr>Code = 500, ContentType = ''application/json'', Content = JObj [(''error'', JStr (Error err))]\<rparr>, db')
      | (users, None, db') \<Rightarrow>
          (\<lparr>Code = 200, ContentType = ''application/json'', Content = Marshal (Users users)\<rparr>, db'))"
    by (simp add: App_getUsers_def respondWithError_def respondWithJSON_def StatusOK_def
        StatusInternalServerError_def split: prod.splits option.splits)
  show "Code (fst (App_getUsers v memdb r s)) = 200"
    by (simp add: App_getUsers_mem)
qed

theorem getUsers_args_range_witness:
  "getUsers_args (list_request ''-3'' ''0'') = (0, 10) \<and>
   getUsers_args (list_request ''2'' ''7'') = (2, 7) \<and>
   getUsers_args (list_request ''x'' ''11'') = (0, 10) \<and>
   Code (fst (App_getUsers Sprintf memdb (list_request ''-3'' ''0'') store1)) = 200"
proof -
  have a: "fst (Atoi (FormValue (list_request ''-3'' ''0'') ''start'')) = - 3"
    "fst (Atoi (FormValue (list_request ''-3'' ''0'') ''count'')) = 0"
    "fst (Atoi (FormValue (list_request ''2'' ''7'') ''start'')) = 2"
    "fst (Atoi (FormValue (list_request ''2'' ''7'') ''count'')) = 7"
    "fst (Atoi (FormValue (list_request ''x'' ''11'') ''start'')) = 0"
    "fst (Atoi (FormValue (list_request ''x'' ''11'') ''count'')) = 11"
    by code_simp+
  note t = getUsers_args_range [where r = "list_request ''-3'' ''0''" and v = Sprintf and s = store1
      and drv = memdb and db = store1]
  from t [THEN conjunct1] a have r1: "getUsers_args (list_request ''-3'' ''0'') = (0, 10)"
    by simp
  from getUsers_args_range [where r = "list_request ''2'' ''7''", THEN conjunct1] a
  have r2: "getUsers_args (list_request ''2'' ''7'') = (2, 7)"
    by simp
  from getUsers_args_range [where r = "list_request ''x'' ''11''", THEN conjunct1] a
  have r3: "getUsers_args (list_request ''x'' ''11'') = (0, 10)"
    by simp
  have c: "Code (fst (App_getUsers Sprintf memdb (list_request ''-3'' ''0'') store1)) = 200"
    by (rule t [THEN conjunct2, THEN conjunct2, THEN conjunct2, THEN conjunct2, THEN conjunct2])
  from r1 r2 r3 c show ?thesis
    by (intro conjI)
qed

section \<open>The statement text handed to the driver\<close>

text \<open>
  In the variant with placeholders each function makes one call to the driver, and its
  text is the same for every input; the values travel as bind arguments.
\<close>

lemma bound_calls:
  "fst (snd (snd (getUser Bound (recording drv) u (calls, db)))) =
     calls @ [(''SELECT name, age FROM users WHERE id=$1'', [IntVal (ID u)])]"
  "fst (snd (snd (updateUser Bound (recording drv) u (calls, db)))) =
     calls @ [(''UPDATE users SET name=$1, age=$2 WHERE id=$3'', [StrVal (Name u), IntVal (Age u), IntVal (ID u)])]"
  "fst (snd (snd (deleteUser Bound (recording drv) u (calls, db)))) =
     calls @ [(''DELETE FROM users WHERE id=$1'', [IntVal (ID u)])]"
  "fst (snd (snd (createUser Bound (recording drv) u (calls, db)))) =
     calls @ [(''INSERT INTO users(name, age) VALUES($1, $2) RETURNING id'', [StrVal (Name u), IntVal (Age u)])]"
  "fst (snd (snd (getUsers Bound (recording drv) start count (calls, db)))) =
     calls @ [(''SELECT id, name, age FROM users LIMIT $1 OFFSET $2'', [IntVal count, IntVal start])]"
  by (simp_all add: getUser_def updateUser_def deleteUser_def createUser_def getUsers_def
      getUser_stmt_def updateUser_stmt_def deleteUser_stmt_def createUser_stmt_def getUsers_stmt_def
      QueryRow_def Row_Scan_def recording_def split: prod.splits sum.splits list.splits option.splits)

lemma bound_texts_fixed:
  "texts (snd (snd (getUser Bound (recording drv) u ([], db)))) =
     texts (snd (snd (getUser Bound (recording drv') u' ([], db'))))"
  "texts (snd (snd (updateUser Bound (recording drv) u ([], db)))) =
     texts (snd (snd (updateUser Bound (recording drv') u' ([], db'))))"
  "texts (snd (snd (deleteUser Bound (recording drv) u ([], db)))) =
     texts (snd (snd (deleteUser Bound (recording drv') u' ([], db'))))"
  "texts (snd (snd (createUser Bound (recording drv) u ([], db)))) =
     texts (snd (snd (createUser Bound (recording drv') u' ([], db'))))"
  "texts (snd (snd (getUsers Bound (recording drv) start count ([], db)))) =
     texts (snd (snd (getUsers Bound (recording drv') start' count' ([], db'))))"
  by (simp_all add: texts_def bound_calls)

text \<open>
  C1 on the \<^verbatim>\<open>Sprintf\<close> variant: two calls that differ only in the values hand
  different statement texts to the driver, with no bind argument; and a name can carry
  SQL of its own into the text.
\<close>

theorem sprintf_text_depends_on_values:
  "fst (snd (snd (getUser Sprintf (recording memdb) (zero_user\<lparr>ID := 1\<rparr>) ([], store1)))) =
     [(''SELECT name, age FROM users WHERE id=1'', [])] \<and>
   fst (snd (snd (getUser Sprintf (recording memdb) (zero_user\<lparr>ID := 2\<rparr>) ([], store1)))) =
     [(''SELECT name, age FROM users WHERE id=2'', [])] \<and>
   fst (snd (snd (deleteUser Sprintf (recording memdb) (zero_user\<lparr>ID := 1\<rparr>) ([], store1)))) =
     [(''DELETE FROM users WHERE id=1'', [])] \<and>
   fst (snd (snd (deleteUser Sprintf (recording memdb) (zero_user\<lparr>ID := 2\<rparr>) ([], store1)))) =
     [(''DELETE FROM users WHERE id=2'', [])] \<and>
   fst (snd (snd (getUsers Sprintf (recording memdb) 0 10 ([], store1)))) =
     [(''SELECT id, name, age FROM users LIMIT 10 OFFSET 0'', [])] \<and>
   fst (snd (snd (getUsers Sprintf (recording memdb) 5 3 ([], store1)))) =
     [(''SELECT id, name, age FROM users LIMIT 3 OFFSET 5'', [])] \<and>
   texts (snd (snd (updateUser Sprintf (recording memdb) \<lparr>ID = 1, Name = ''Ann'', Age = 30\<rparr> ([], store1)))) =
     [''UPDATE users SET name='' @ [quote] @ ''Ann'' @ [quote] @ '', age=30 WHERE id=1''] \<and>
   texts (snd (snd (updateUser Sprintf (recording memdb) \<lparr>ID = 1, Name = ''Bob'', Age = 31\<rparr> ([], store1)))) =
     [''UPDATE users SET name='' @ [quote] @ ''Bob'' @ [quote] @ '', age=31 WHERE id=1''] \<and>
   texts (snd (snd (createUser Sprintf (recording memdb) \<lparr>ID = 0, Name = ''Ann'', Age = 30\<rparr> ([], store1)))) =
     [''INSERT INTO users(name, age) VALUES('' @ [quote] @ ''Ann'' @ [quote] @ '', 30)'',
      ''SELECT LAST_INSERT_ID()''] \<and>
   texts (snd (snd (createUser Sprintf (recording memdb) \<lparr>ID = 0, Name = injected_name, Age = 30\<rparr> ([], store1)))) =
     [''INSERT INTO users(name, age) VALUES('' @ [quote] @ ''x'' @ [quote]
        @ '', 0); DROP TABLE users; -- '' @ [quote] @ '', 30)'']"
  by code_simp

section \<open>Creating a user and fetching it again\<close>

text \<open>
  In the variant with placeholders, on the store in memory, a user that was created is
  fetched back with the name and age it was created with, whatever the name contains.
  The ids in the table are taken to lie below the counter.
\<close>

lemma bound_round_trip:
  assumes inv: "\<forall>x \<in> set (users_table s). ID x < auto_increment s"
    and c: "createUser Bound memdb u s = (e, u', s')"
  shows "e = None \<and> getUser v memdb (zero_user\<lparr>ID := ID u'\<rparr>) s' =
           (None, \<lparr>ID = ID u', Name = Name u, Age = Age u\<rparr>, served s')"
proof -
  from inv have "filter (\<lambda>x. ID x = auto_increment s) (users_table s) = []"
    by (auto simp: filter_empty_conv)
  with c show ?thesis
    by (auto simp: mem_createUser_Bound mem_getUser served_simps zero_user_def)
qed

text \<open>
  C3 on the \<^verbatim>\<open>Sprintf\<close> variant.  A name with a single quote ends the string literal
  early: the statement does not parse, \<open>createUser\<close> fails and nothing is stored.  A
  name with two quotes in a row is stored with one: the user is created, and the fetch
  of its id returns another name.
\<close>

theorem sprintf_round_trip_breaks:
  "createUser Sprintf memdb \<lparr>ID = 0, Name = quoted_name, Age = 30\<rparr> empty_store =
     (Some (DriverError ''syntax error''), \<lparr>ID = 0, Name = quoted_name, Age = 30\<rparr>, empty_store) \<and>
   fst (createUser Sprintf memdb \<lparr>ID = 0, Name = doubled_name, Age = 30\<rparr> empty_store) = None \<and>
   fst (snd (createUser Sprintf memdb \<lparr>ID = 0, Name = doubled_name, Age = 30\<rparr> empty_store)) =
     \<lparr>ID = 1, Name = doubled_name, Age = 30\<rparr> \<and>
   fst (getUser Sprintf memdb (zero_user\<lparr>ID := 1\<rparr>)
          (snd (snd (createUser Sprintf memdb \<lparr>ID = 0, Name = doubled_name, Age = 30\<rparr> empty_store)))) = None \<and>
   fst (snd (getUser Sprintf memdb (zero_user\<lparr>ID := 1\<rparr>)
          (snd (snd (createUser Sprintf memdb \<lparr>ID = 0, Name = doubled_name, Age = 30\<rparr> empty_store))))) =
     \<lparr>ID = 1, Name = quoted_name, Age = 30\<rparr> \<and>
   quoted_name \<noteq> doubled_name"
  by code_simp

end
